theory Spec2Isabelle
  imports Complex_Main
begin

section \<open>Salus Bridge: the HTTP handlers of \<^verbatim>\<open>app/main.py\<close>\<close>

text \<open>
  The bridge is a set of HTTP handlers over one gateway client object of the external
  library \<^verbatim>\<open>pyit600\<close>. The handlers are embedded as state-passing functions.
  The state is the gateway client together with the log of the calls made on it, so
  that the order and the number of gateway calls of a handler can be read off the log.

  Conventions of the embedding:
  \<^item> a Python \<^verbatim>\<open>float\<close> is a \<open>real\<close>: the handlers only copy floats, they never
    compute with them;
  \<^item> a value that may be \<^verbatim>\<open>None\<close> is an \<open>option\<close>;
  \<^item> a \<^verbatim>\<open>dict\<close> is the list of its items in iteration order;
  \<^item> \<^verbatim>\<open>raise HTTPException(...)\<close> is the \<open>Inl\<close> branch of a handler's result;
  \<^item> a call of the gateway client is assumed to return: an exception raised inside the
    client library is not caught by any handler and is outside this model.
\<close>

subsection \<open>Python values\<close>

type_synonym pyfloat = real

text \<open>The JSON-like values the handlers return as \<^verbatim>\<open>dict\<close> literals.\<close>

datatype pyval =
    Str string
  | Float pyfloat
  | List "pyval list"
  | Dict "(string \<times> pyval) list"

text \<open>
  \<^verbatim>\<open>repr\<close> of a string and \<^verbatim>\<open>str\<close> of a list of strings, as an f-string formats
  them. The quoting is the one Python uses for a string without quote, backslash or
  control characters, which is what the two lists of accepted values hold.
\<close>

definition py_repr_str :: "string \<Rightarrow> string" where
  "py_repr_str s = [CHR 0x27] @ s @ [CHR 0x27]"

fun py_join :: "string \<Rightarrow> string list \<Rightarrow> string" where
  "py_join sep [] = []"
| "py_join sep [x] = x"
| "py_join sep (x # y # ys) = x @ sep @ py_join sep (y # ys)"

definition py_str_list :: "string list \<Rightarrow> string" where
  "py_str_list xs = ''['' @ py_join '', '' (map py_repr_str xs) @ '']''"

datatype py_error = ValueError string

datatype http_error = HTTPException (status_code: nat) (detail: string)

subsection \<open>Configuration from the environment (lines 10-16)\<close>

record config =
  GATEWAY_HOST :: string
  GATEWAY_EUID :: string

text \<open>
  \<^verbatim>\<open>os.getenv\<close> gives \<^verbatim>\<open>None\<close> for an unset variable; \<^verbatim>\<open>not v\<close> holds
  for \<^verbatim>\<open>None\<close> and for the empty string.
\<close>

definition py_not_str :: "string option \<Rightarrow> bool" where
  "py_not_str v = (case v of None \<Rightarrow> True | Some s \<Rightarrow> s = [])"

definition module_init :: "(string \<rightharpoonup> string) \<Rightarrow> py_error + config" where
  "module_init getenv =
     (let host = getenv ''SALUS_GATEWAY_HOST'';
          euid = getenv ''SALUS_GATEWAY_EUID''
      in if py_not_str host \<or> py_not_str euid
         then Inl (ValueError
           ''SALUS_GATEWAY_HOST and SALUS_GATEWAY_EUID environment variables are required'')
         else Inr \<lparr>GATEWAY_HOST = the host, GATEWAY_EUID = the euid\<rparr>)"

subsection \<open>The gateway client (external collaborator)\<close>

text \<open>
  The attributes of a climate device that the handlers read, with the types that
  \<^verbatim>\<open>DeviceResponse\<close> declares for them. A device object of the library is a
  non-empty named tuple, so \<^verbatim>\<open>not device\<close> holds exactly for \<^verbatim>\<open>None\<close>.
\<close>

record device =
  name :: string
  current_temperature :: "pyfloat option"
  target_temperature :: "pyfloat option"
  hvac_mode :: "string option"
  hvac_action :: "string option"
  preset_mode :: "string option"
  available :: bool

text \<open>The calls a handler can make on the gateway client, as they appear in the log.\<close>

datatype gateway_call =
    Create string string
  | Connect
  | Close
  | PollStatus
  | GetClimateDevices
  | GetClimateDevice string
  | SetClimateDeviceTemperature string pyfloat
  | SetClimateDeviceMode string string
  | SetClimateDevicePreset string string

text \<open>
  The client's interface, over an arbitrary type \<open>'g\<close> of client states. Nothing is
  assumed about what a poll or a setter does to the state; the two getters only read.
\<close>

record 'g IT600Gateway =
  new_gateway :: "string \<Rightarrow> string \<Rightarrow> 'g"
  connect :: "'g \<Rightarrow> 'g"
  poll_status :: "'g \<Rightarrow> 'g"
  get_climate_devices :: "'g \<Rightarrow> (string \<times> device) list"
  get_climate_device :: "'g \<Rightarrow> string \<Rightarrow> device option"
  set_climate_device_temperature :: "string \<Rightarrow> pyfloat \<Rightarrow> 'g \<Rightarrow> 'g"
  set_climate_device_mode :: "string \<Rightarrow> string \<Rightarrow> 'g \<Rightarrow> 'g"
  set_climate_device_preset :: "string \<Rightarrow> string \<Rightarrow> 'g \<Rightarrow> 'g"

text \<open>The global \<^verbatim>\<open>gateway\<close> once the lifespan has set it, and the calls made so far.\<close>

record 'g conn =
  gateway :: 'g
  calls :: "gateway_call list"

definition do_connect :: "'g IT600Gateway \<Rightarrow> 'g conn \<Rightarrow> 'g conn" where
  "do_connect gw s = \<lparr>gateway = connect gw (gateway s), calls = calls s @ [Connect]\<rparr>"

definition do_poll_status :: "'g IT600Gateway \<Rightarrow> 'g conn \<Rightarrow> 'g conn" where
  "do_poll_status gw s =
     \<lparr>gateway = poll_status gw (gateway s), calls = calls s @ [PollStatus]\<rparr>"

definition do_get_climate_devices ::
  "'g IT600Gateway \<Rightarrow> 'g conn \<Rightarrow> (string \<times> device) list \<times> 'g conn" where
  "do_get_climate_devices gw s =
     (get_climate_devices gw (gateway s),
      \<lparr>gateway = gateway s, calls = calls s @ [GetClimateDevices]\<rparr>)"

definition do_get_climate_device ::
  "'g IT600Gateway \<Rightarrow> string \<Rightarrow> 'g conn \<Rightarrow> device option \<times> 'g conn" where
  "do_get_climate_device gw device_id s =
     (get_climate_device gw (gateway s) device_id,
      \<lparr>gateway = gateway s, calls = calls s @ [GetClimateDevice device_id]\<rparr>)"

definition do_set_climate_device_temperature ::
  "'g IT600Gateway \<Rightarrow> string \<Rightarrow> pyfloat \<Rightarrow> 'g conn \<Rightarrow> 'g conn" where
  "do_set_climate_device_temperature gw device_id t s =
     \<lparr>gateway = set_climate_device_temperature gw device_id t (gateway s),
      calls = calls s @ [SetClimateDeviceTemperature device_id t]\<rparr>"

definition do_set_climate_device_mode ::
  "'g IT600Gateway \<Rightarrow> string \<Rightarrow> string \<Rightarrow> 'g conn \<Rightarrow> 'g conn" where
  "do_set_climate_device_mode gw device_id m s =
     \<lparr>gateway = set_climate_device_mode gw device_id m (gateway s),
      calls = calls s @ [SetClimateDeviceMode device_id m]\<rparr>"

definition do_set_climate_device_preset ::
  "'g IT600Gateway \<Rightarrow> string \<Rightarrow> string \<Rightarrow> 'g conn \<Rightarrow> 'g conn" where
  "do_set_climate_device_preset gw device_id p s =
     \<lparr>gateway = set_climate_device_preset gw device_id p (gateway s),
      calls = calls s @ [SetClimateDevicePreset device_id p]\<rparr>"

text \<open>A setter call, of any of the three kinds.\<close>

fun is_setter :: "gateway_call \<Rightarrow> bool" where
  "is_setter (SetClimateDeviceTemperature _ _) = True"
| "is_setter (SetClimateDeviceMode _ _) = True"
| "is_setter (SetClimateDevicePreset _ _) = True"
| "is_setter _ = False"

subsection \<open>Process start: module body, then the lifespan (lines 10-31)\<close>

text \<open>
  The server imports the module, which runs \<open>module_init\<close>, and only then enters the
  lifespan, which creates the client, connects and polls. The result is the error of
  the import or the connected client, with the gateway calls made.
\<close>

definition lifespan_startup :: "'g IT600Gateway \<Rightarrow> config \<Rightarrow> 'g conn" where
  "lifespan_startup gw cfg =
     (let s0 = \<lparr>gateway = new_gateway gw (GATEWAY_HOST cfg) (GATEWAY_EUID cfg),
                calls = [Create (GATEWAY_HOST cfg) (GATEWAY_EUID cfg)]\<rparr>;
          s1 = do_connect gw s0
      in do_poll_status gw s1)"

definition process_start ::
  "'g IT600Gateway \<Rightarrow> (string \<rightharpoonup> string) \<Rightarrow> (py_error + 'g) \<times> gateway_call list" where
  "process_start gw getenv =
     (case module_init getenv of
        Inl e \<Rightarrow> (Inl e, [])
      | Inr cfg \<Rightarrow> (let s = lifespan_startup gw cfg in (Inr (gateway s), calls s)))"

subsection \<open>Request and response models (lines 42-69, 185-192)\<close>

record TemperatureRequest =
  temperature :: pyfloat

record ModeRequest =
  mode :: string

record PresetRequest =
  preset :: string

record DeviceResponse =
  id' :: string
  name :: string
  current_temperature :: "pyfloat option"
  target_temperature :: "pyfloat option"
  hvac_mode :: "string option"
  hvac_action :: "string option"
  preset_mode :: "string option"
  available :: bool

record DeviceListResponse =
  devices :: "DeviceResponse list"
  count :: int

record ZoneTemperatureRequest =
  device_ids :: "string list"
  temperature :: pyfloat

record ZonePresetRequest =
  device_ids :: "string list"
  preset :: string

subsection \<open>The device view mapper (lines 73-83)\<close>

definition device_to_response :: "string \<Rightarrow> device \<Rightarrow> DeviceResponse" where
  "device_to_response device_id d =
     \<lparr>DeviceResponse.id' = device_id,
      DeviceResponse.name = device.name d,
      DeviceResponse.current_temperature = device.current_temperature d,
      DeviceResponse.target_temperature = device.target_temperature d,
      DeviceResponse.hvac_mode = device.hvac_mode d,
      DeviceResponse.hvac_action = device.hvac_action d,
      DeviceResponse.preset_mode = device.preset_mode d,
      DeviceResponse.available = device.available d\<rparr>"

text \<open>
  \<open>device_to_response\<close> above is the mapper on a device whose attributes have the
  types of the gateway interface, which is how the handlers call it. In the source the
  parameter \<^verbatim>\<open>device\<close> is not annotated and \<^verbatim>\<open>DeviceResponse\<close> is a pydantic
  model, so the constructor validates every keyword argument against the type declared
  for its field and raises \<^verbatim>\<open>ValidationError\<close> for the fields that fail. The
  definitions that follow embed the same lines for a device object whose attributes
  are untyped values.
\<close>

datatype pyobj = PNone | PStr string | PFloat pyfloat | PBool bool | PInt int | PObject

record device_object =
  name :: pyobj
  current_temperature :: pyobj
  target_temperature :: pyobj
  hvac_mode :: pyobj
  hvac_action :: pyobj
  preset_mode :: pyobj
  available :: pyobj

text \<open>
  What the validation does with a value that is not of the declared type depends on
  the version and mode of the library: it converts the value or rejects it (\<open>None\<close>
  here). That part is a parameter. Two things hold in every version and mode and are
  fixed: a value of the declared type is accepted as it is, and \<^verbatim>\<open>None\<close> is
  rejected for a field that is not declared optional.
\<close>

record pydantic_mode =
  coerce_str :: "pyobj \<Rightarrow> string option"
  coerce_float :: "pyobj \<Rightarrow> pyfloat option"
  coerce_bool :: "pyobj \<Rightarrow> bool option"

fun validate_str :: "pydantic_mode \<Rightarrow> pyobj \<Rightarrow> string option" where
  "validate_str m (PStr s) = Some s"
| "validate_str m PNone = None"
| "validate_str m x = coerce_str m x"

fun validate_float :: "pydantic_mode \<Rightarrow> pyobj \<Rightarrow> pyfloat option" where
  "validate_float m (PFloat f) = Some f"
| "validate_float m PNone = None"
| "validate_float m x = coerce_float m x"

fun validate_bool :: "pydantic_mode \<Rightarrow> pyobj \<Rightarrow> bool option" where
  "validate_bool m (PBool b) = Some b"
| "validate_bool m PNone = None"
| "validate_bool m x = coerce_bool m x"

text \<open>
  A field declared \<^verbatim>\<open>T | None\<close>: \<^verbatim>\<open>None\<close> is accepted as the absent value,
  anything else is validated as a \<^verbatim>\<open>T\<close>. The outer \<open>option\<close> is the verdict.
\<close>

fun validate_optional :: "(pyobj \<Rightarrow> 'a option) \<Rightarrow> pyobj \<Rightarrow> 'a option option" where
  "validate_optional validate PNone = Some None"
| "validate_optional validate x = map_option Some (validate x)"

datatype validation_error = ValidationError "string list"

text \<open>
  The constructor \<^verbatim>\<open>DeviceResponse(id=..., name=..., ...)\<close>: every field is
  validated, the names of the fields that fail are collected in the order of the
  class body, and the model is built only when none fails.
\<close>

definition DeviceResponse_init ::
  "pydantic_mode \<Rightarrow> pyobj \<Rightarrow> pyobj \<Rightarrow> pyobj \<Rightarrow> pyobj \<Rightarrow> pyobj \<Rightarrow> pyobj \<Rightarrow> pyobj \<Rightarrow> pyobj
     \<Rightarrow> validation_error + DeviceResponse" where
  "DeviceResponse_init m a_id a_name a_current a_target a_mode a_action a_preset a_available =
     (let failed =
            (if validate_str m a_id = None then [''id''] else []) @
            (if validate_str m a_name = None then [''name''] else []) @
            (if validate_optional (validate_float m) a_current = None
             then [''current_temperature''] else []) @
            (if validate_optional (validate_float m) a_target = None
             then [''target_temperature''] else []) @
            (if validate_optional (validate_str m) a_mode = None then [''hvac_mode''] else []) @
            (if validate_optional (validate_str m) a_action = None
             then [''hvac_action''] else []) @
            (if validate_optional (validate_str m) a_preset = None
             then [''preset_mode''] else []) @
            (if validate_bool m a_available = None then [''available''] else [])
      in if failed \<noteq> [] then Inl (ValidationError failed)
         else Inr
           \<lparr>DeviceResponse.id' = the (validate_str m a_id),
            DeviceResponse.name = the (validate_str m a_name),
            DeviceResponse.current_temperature =
              the (validate_optional (validate_float m) a_current),
            DeviceResponse.target_temperature =
              the (validate_optional (validate_float m) a_target),
            DeviceResponse.hvac_mode = the (validate_optional (validate_str m) a_mode),
            DeviceResponse.hvac_action = the (validate_optional (validate_str m) a_action),
            DeviceResponse.preset_mode = the (validate_optional (validate_str m) a_preset),
            DeviceResponse.available = the (validate_bool m a_available)\<rparr>)"

definition device_to_response_obj ::
  "pydantic_mode \<Rightarrow> string \<Rightarrow> device_object \<Rightarrow> validation_error + DeviceResponse" where
  "device_to_response_obj m device_id dev =
     DeviceResponse_init m (PStr device_id)
       (device_object.name dev)
       (device_object.current_temperature dev)
       (device_object.target_temperature dev)
       (device_object.hvac_mode dev)
       (device_object.hvac_action dev)
       (device_object.preset_mode dev)
       (device_object.available dev)"

text \<open>The device object that carries the attributes of a typed device record.\<close>

definition opt_float_obj :: "pyfloat option \<Rightarrow> pyobj" where
  "opt_float_obj v = (case v of None \<Rightarrow> PNone | Some f \<Rightarrow> PFloat f)"

definition opt_str_obj :: "string option \<Rightarrow> pyobj" where
  "opt_str_obj v = (case v of None \<Rightarrow> PNone | Some s \<Rightarrow> PStr s)"

definition object_of :: "device \<Rightarrow> device_object" where
  "object_of d =
     \<lparr>device_object.name = PStr (device.name d),
      device_object.current_temperature = opt_float_obj (device.current_temperature d),
      device_object.target_temperature = opt_float_obj (device.target_temperature d),
      device_object.hvac_mode = opt_str_obj (device.hvac_mode d),
      device_object.hvac_action = opt_str_obj (device.hvac_action d),
      device_object.preset_mode = opt_str_obj (device.preset_mode d),
      device_object.available = PBool (device.available d)\<rparr>"

text \<open>The mode that converts nothing: a value not of the declared type is rejected.\<close>

definition no_coercion :: pydantic_mode where
  "no_coercion =
     \<lparr>coerce_str = (\<lambda>x. None), coerce_float = (\<lambda>x. None), coerce_bool = (\<lambda>x. None)\<rparr>"

subsection \<open>Read endpoints (lines 92-113)\<close>

definition not_found :: "string \<Rightarrow> http_error" where
  "not_found device_id = HTTPException 404 (''Device '' @ device_id @ '' not found'')"

definition get_devices :: "'g IT600Gateway \<Rightarrow> 'g conn \<Rightarrow> DeviceListResponse \<times> 'g conn" where
  "get_devices gw s =
     (let s1 = do_poll_status gw s;
          (devs, s2) = do_get_climate_devices gw s1
      in (\<lparr>devices = map (\<lambda>(did, d). device_to_response did d) devs,
           count = int (length devs)\<rparr>, s2))"

definition get_device ::
  "'g IT600Gateway \<Rightarrow> string \<Rightarrow> 'g conn \<Rightarrow> (http_error + DeviceResponse) \<times> 'g conn" where
  "get_device gw device_id s =
     (let s1 = do_poll_status gw s;
          (dev, s2) = do_get_climate_device gw device_id s1
      in case dev of
           None \<Rightarrow> (Inl (not_found device_id), s2)
         | Some d \<Rightarrow> (Inr (device_to_response device_id d), s2))"

subsection \<open>Single-device mutating endpoints (lines 116-181)\<close>

definition valid_modes :: "string list" where
  "valid_modes = [''off'', ''heat'', ''auto'']"

definition valid_presets :: "string list" where
  "valid_presets = [''Follow Schedule'', ''Permanent Hold'', ''Off'']"

definition invalid_mode :: http_error where
  "invalid_mode =
     HTTPException 400 (''Invalid mode. Must be one of: '' @ py_str_list valid_modes)"

definition invalid_preset :: http_error where
  "invalid_preset =
     HTTPException 400 (''Invalid preset. Must be one of: '' @ py_str_list valid_presets)"

definition set_temperature ::
  "'g IT600Gateway \<Rightarrow> string \<Rightarrow> TemperatureRequest \<Rightarrow> 'g conn
     \<Rightarrow> (http_error + pyval) \<times> 'g conn" where
  "set_temperature gw device_id request s =
     (let s1 = do_poll_status gw s;
          (dev, s2) = do_get_climate_device gw device_id s1
      in case dev of
           None \<Rightarrow> (Inl (not_found device_id), s2)
         | Some d \<Rightarrow>
             (let s3 = do_set_climate_device_temperature gw device_id
                         (TemperatureRequest.temperature request) s2
              in (Inr (Dict [(''status'', Str ''ok''),
                             (''device_id'', Str device_id),
                             (''temperature'', Float (TemperatureRequest.temperature request))]),
                  s3)))"

definition set_mode ::
  "'g IT600Gateway \<Rightarrow> string \<Rightarrow> ModeRequest \<Rightarrow> 'g conn
     \<Rightarrow> (http_error + pyval) \<times> 'g conn" where
  "set_mode gw device_id request s =
     (let s1 = do_poll_status gw s;
          (dev, s2) = do_get_climate_device gw device_id s1
      in case dev of
           None \<Rightarrow> (Inl (not_found device_id), s2)
         | Some d \<Rightarrow>
             if mode request \<notin> set valid_modes then (Inl invalid_mode, s2)
             else
               (let s3 = do_set_climate_device_mode gw device_id (mode request) s2
                in (Inr (Dict [(''status'', Str ''ok''),
                               (''device_id'', Str device_id),
                               (''mode'', Str (mode request))]),
                    s3)))"

definition set_preset ::
  "'g IT600Gateway \<Rightarrow> string \<Rightarrow> PresetRequest \<Rightarrow> 'g conn
     \<Rightarrow> (http_error + pyval) \<times> 'g conn" where
  "set_preset gw device_id request s =
     (let s1 = do_poll_status gw s;
          (dev, s2) = do_get_climate_device gw device_id s1
      in case dev of
           None \<Rightarrow> (Inl (not_found device_id), s2)
         | Some d \<Rightarrow>
             if PresetRequest.preset request \<notin> set valid_presets
             then (Inl invalid_preset, s2)
             else
               (let s3 = do_set_climate_device_preset gw device_id
                           (PresetRequest.preset request) s2
                in (Inr (Dict [(''status'', Str ''ok''),
                               (''device_id'', Str device_id),
                               (''preset'', Str (PresetRequest.preset request))]),
                    s3)))"

subsection \<open>Zone endpoints (lines 195-241)\<close>

text \<open>
  The \<^verbatim>\<open>for\<close> loop of \<open>set_zone_temperature\<close> over the ids still to do, with
  the \<^verbatim>\<open>results\<close> list appended to so far.
\<close>

fun zone_temperature_loop ::
  "'g IT600Gateway \<Rightarrow> pyfloat \<Rightarrow> string list \<Rightarrow> pyval list \<Rightarrow> 'g conn
     \<Rightarrow> pyval list \<times> 'g conn" where
  "zone_temperature_loop gw t [] results s = (results, s)"
| "zone_temperature_loop gw t (device_id # rest) results s =
     (let (dev, s1) = do_get_climate_device gw device_id s
      in case dev of
           Some d \<Rightarrow>
             (let s2 = do_set_climate_device_temperature gw device_id t s1
              in zone_temperature_loop gw t rest
                   (results @ [Dict [(''device_id'', Str device_id), (''status'', Str ''ok'')]])
                   s2)
         | None \<Rightarrow>
             zone_temperature_loop gw t rest
               (results @ [Dict [(''device_id'', Str device_id), (''status'', Str ''not_found'')]])
               s1)"

definition set_zone_temperature ::
  "'g IT600Gateway \<Rightarrow> ZoneTemperatureRequest \<Rightarrow> 'g conn \<Rightarrow> pyval \<times> 'g conn" where
  "set_zone_temperature gw request s =
     (let s1 = do_poll_status gw s;
          (results, s2) =
             zone_temperature_loop gw (ZoneTemperatureRequest.temperature request)
               (ZoneTemperatureRequest.device_ids request) [] s1
      in (Dict [(''status'', Str ''ok''),
                (''temperature'', Float (ZoneTemperatureRequest.temperature request)),
                (''results'', List results)],
          s2))"

text \<open>The \<^verbatim>\<open>for\<close> loop of \<open>set_zone_preset\<close>.\<close>

fun zone_preset_loop ::
  "'g IT600Gateway \<Rightarrow> string \<Rightarrow> string list \<Rightarrow> pyval list \<Rightarrow> 'g conn
     \<Rightarrow> pyval list \<times> 'g conn" where
  "zone_preset_loop gw p [] results s = (results, s)"
| "zone_preset_loop gw p (device_id # rest) results s =
     (let (dev, s1) = do_get_climate_device gw device_id s
      in case dev of
           Some d \<Rightarrow>
             (let s2 = do_set_climate_device_preset gw device_id p s1
              in zone_preset_loop gw p rest
                   (results @ [Dict [(''device_id'', Str device_id), (''status'', Str ''ok'')]])
                   s2)
         | None \<Rightarrow>
             zone_preset_loop gw p rest
               (results @ [Dict [(''device_id'', Str device_id), (''status'', Str ''not_found'')]])
               s1)"

definition set_zone_preset ::
  "'g IT600Gateway \<Rightarrow> ZonePresetRequest \<Rightarrow> 'g conn \<Rightarrow> (http_error + pyval) \<times> 'g conn" where
  "set_zone_preset gw request s =
     (let s1 = do_poll_status gw s
      in if ZonePresetRequest.preset request \<notin> set valid_presets
         then (Inl invalid_preset, s1)
         else
           (let (results, s2) =
                  zone_preset_loop gw (ZonePresetRequest.preset request)
                    (ZonePresetRequest.device_ids request) [] s1
            in (Inr (Dict [(''status'', Str ''ok''),
                           (''preset'', Str (ZonePresetRequest.preset request)),
                           (''results'', List results)]),
                s2)))"

subsection \<open>Reading the log and the results\<close>

text \<open>The calls a handler added to the log \<open>calls s\<close> it started from.\<close>

definition calls_since :: "'g conn \<Rightarrow> 'g conn \<Rightarrow> gateway_call list" where
  "calls_since s s' = drop (length (calls s)) (calls s')"


subsection \<open>A client for concrete runs\<close>

text \<open>
  A client whose state is the table of the devices it reports: a poll leaves the table
  as it is, a lookup reads it, and a setter overwrites the attribute of the device it
  names. Devices \<open>A\<close> and \<open>C\<close> are known to it, no other id is.
\<close>

definition living_room :: device where
  "living_room = \<lparr>device.name = ''Living room'',
     device.current_temperature = Some 20.5, device.target_temperature = Some 21,
     device.hvac_mode = Some ''heat'', device.hvac_action = Some ''heating'',
     device.preset_mode = Some ''Follow Schedule'', device.available = True\<rparr>"

definition attic :: device where
  "attic = \<lparr>device.name = ''Attic'',
     device.current_temperature = None, device.target_temperature = None,
     device.hvac_mode = None, device.hvac_action = None,
     device.preset_mode = None, device.available = False\<rparr>"

definition table_update ::
  "string \<Rightarrow> (device \<Rightarrow> device) \<Rightarrow> (string \<times> device) list \<Rightarrow> (string \<times> device) list" where
  "table_update device_id f g = map (\<lambda>(k, d). (k, if k = device_id then f d else d)) g"

definition table_gateway :: "((string \<times> device) list) IT600Gateway" where
  "table_gateway =
     \<lparr>new_gateway = (\<lambda>host euid. [(''A'', living_room), (''C'', attic)]),
      connect = (\<lambda>g. g),
      poll_status = (\<lambda>g. g),
      get_climate_devices = (\<lambda>g. g),
      get_climate_device = (\<lambda>g i. map_of g i),
      set_climate_device_temperature =
        (\<lambda>i t. table_update i (\<lambda>d. d\<lparr>device.target_temperature := Some t\<rparr>)),
      set_climate_device_mode =
        (\<lambda>i m. table_update i (\<lambda>d. d\<lparr>device.hvac_mode := Some m\<rparr>)),
      set_climate_device_preset =
        (\<lambda>i p. table_update i (\<lambda>d. d\<lparr>device.preset_mode := Some p\<rparr>))\<rparr>"

definition table_conn :: "((string \<times> device) list) conn" where
  "table_conn = \<lparr>gateway = [(''A'', living_room), (''C'', attic)], calls = []\<rparr>"

section \<open>Properties\<close>

subsection \<open>The constants of the validation rules\<close>

lemma invalid_preset_literal:
  "invalid_preset = HTTPException 400
     ''Invalid preset. Must be one of: ['Follow Schedule', 'Permanent Hold', 'Off']''"
  by (simp add: invalid_preset_def py_str_list_def valid_presets_def py_repr_str_def)

lemma invalid_mode_literal:
  "invalid_mode = HTTPException 400 ''Invalid mode. Must be one of: ['off', 'heat', 'auto']''"
  by (simp add: invalid_mode_def py_str_list_def valid_modes_def py_repr_str_def)

lemma set_valid_presets:
  "set valid_presets = {''Follow Schedule'', ''Permanent Hold'', ''Off''}"
  by (simp add: valid_presets_def)

lemma set_valid_modes: "set valid_modes = {''off'', ''heat'', ''auto''}"
  by (simp add: valid_modes_def)

subsection \<open>The device view mapper\<close>

lemma validate_optional_float_obj:
  "validate_optional (validate_float m) (opt_float_obj v) = Some v"
  by (cases v) (simp_all add: opt_float_obj_def)

lemma validate_optional_str_obj:
  "validate_optional (validate_str m) (opt_str_obj v) = Some v"
  by (cases v) (simp_all add: opt_str_obj_def)

text \<open>
  Claim C7, as the code has it. For a device whose attributes have the types the
  response model declares (the name a string, the two temperatures a float or absent,
  the two modes and the preset a string or absent, the availability a boolean), the
  mapper returns a view and no error, in every validation mode: the id is the id
  passed and each other field is the attribute of the device, an absent optional value
  staying absent; this view is the one the typed mapper of the handlers computes. The
  mapper is not total on every device object: the constructor of the response model
  validates, and it rejects a device whose name is \<^verbatim>\<open>None\<close>, in every mode.
\<close>

theorem device_to_response_declared_types:
  "device_to_response_obj m device_id (object_of d)
     = Inr \<lparr>DeviceResponse.id' = device_id,
            DeviceResponse.name = device.name d,
            DeviceResponse.current_temperature = device.current_temperature d,
            DeviceResponse.target_temperature = device.target_temperature d,
            DeviceResponse.hvac_mode = device.hvac_mode d,
            DeviceResponse.hvac_action = device.hvac_action d,
            DeviceResponse.preset_mode = device.preset_mode d,
            DeviceResponse.available = device.available d\<rparr> \<and>
   device_to_response_obj m device_id (object_of d) = Inr (device_to_response device_id d) \<and>
   (\<exists>failed. device_to_response_obj m device_id (dev\<lparr>device_object.name := PNone\<rparr>)
                = Inl (ValidationError failed) \<and> ''name'' \<in> set failed)"
proof (intro conjI)
  show view: "device_to_response_obj m device_id (object_of d)
     = Inr \<lparr>DeviceResponse.id' = device_id,
            DeviceResponse.name = device.name d,
            DeviceResponse.current_temperature = device.current_temperature d,
            DeviceResponse.target_temperature = device.target_temperature d,
            DeviceResponse.hvac_mode = device.hvac_mode d,
            DeviceResponse.hvac_action = device.hvac_action d,
            DeviceResponse.preset_mode = device.preset_mode d,
            DeviceResponse.available = device.available d\<rparr>"
    by (simp add: device_to_response_obj_def DeviceResponse_init_def object_of_def
        validate_optional_float_obj validate_optional_str_obj)
  then show "device_to_response_obj m device_id (object_of d)
               = Inr (device_to_response device_id d)"
    by (simp add: device_to_response_def)
  show "\<exists>failed. device_to_response_obj m device_id (dev\<lparr>device_object.name := PNone\<rparr>)
                = Inl (ValidationError failed) \<and> ''name'' \<in> set failed"
    by (simp add: device_to_response_obj_def DeviceResponse_init_def Let_def)
qed

theorem device_to_response_declared_types_witness:
  "device_to_response_obj no_coercion ''C'' (object_of attic)
     = Inr \<lparr>DeviceResponse.id' = ''C'', DeviceResponse.name = ''Attic'',
            DeviceResponse.current_temperature = None,
            DeviceResponse.target_temperature = None,
            DeviceResponse.hvac_mode = None, DeviceResponse.hvac_action = None,
            DeviceResponse.preset_mode = None, DeviceResponse.available = False\<rparr>"
  using device_to_response_declared_types [of no_coercion "''C''" attic]
  by (simp add: attic_def)

text \<open>
  The claim as stated, no failure mode for every device, fails on a device object
  whose name is \<^verbatim>\<open>None\<close>: the constructor raises the validation error for the
  field \<open>name\<close>.
\<close>

theorem device_to_response_rejects_counterexample:
  "device_to_response_obj no_coercion ''A''
     \<lparr>device_object.name = PNone,
      device_object.current_temperature = PFloat 20.5,
      device_object.target_temperature = PFloat 21,
      device_object.hvac_mode = PStr ''heat'',
      device_object.hvac_action = PStr ''heating'',
      device_object.preset_mode = PStr ''Follow Schedule'',
      device_object.available = PBool True\<rparr>
   = Inl (ValidationError [''name''])"
  by (simp add: device_to_response_obj_def DeviceResponse_init_def no_coercion_def)

subsection \<open>Read endpoints\<close>

text \<open>
  Claim C10. In the response of \<open>get_devices\<close> the \<open>count\<close> field is the length of
  the \<open>devices\<close> list, and the list is the view of each item of the mapping the client
  reports after the poll, one per item and in the mapping's order.
\<close>

theorem get_devices_count:
  "DeviceListResponse.count (fst (get_devices gw s))
     = int (length (devices (fst (get_devices gw s)))) \<and>
   devices (fst (get_devices gw s))
     = map (\<lambda>(did, d). device_to_response did d)
         (get_climate_devices gw (poll_status gw (gateway s))) \<and>
   map DeviceResponse.id' (devices (fst (get_devices gw s)))
     = map fst (get_climate_devices gw (poll_status gw (gateway s)))"
  by (simp add: get_devices_def do_poll_status_def do_get_climate_devices_def
      device_to_response_def case_prod_unfold comp_def)

subsection \<open>Process start\<close>

text \<open>
  Claim C8. When the host or the unique identifier is unset in the environment, the
  module body raises \<^verbatim>\<open>ValueError\<close>, and the process start ends with that error
  and an empty log of gateway calls: no client was created and no connection attempted.
\<close>

theorem refuses_to_start_unconfigured:
  assumes "getenv ''SALUS_GATEWAY_HOST'' = None \<or> getenv ''SALUS_GATEWAY_EUID'' = None"
  shows "module_init getenv = Inl (ValueError
           ''SALUS_GATEWAY_HOST and SALUS_GATEWAY_EUID environment variables are required'') \<and>
         process_start gw getenv = (Inl (ValueError
           ''SALUS_GATEWAY_HOST and SALUS_GATEWAY_EUID environment variables are required''), [])"
  using assms by (auto simp: module_init_def process_start_def py_not_str_def)

text \<open>
  With only the host set the start is refused; with both set the lifespan creates the
  client, connects and polls.
\<close>

theorem refuses_to_start_unconfigured_witness:
  "(Map.empty(''SALUS_GATEWAY_HOST'' \<mapsto> ''192.168.1.20'')) ''SALUS_GATEWAY_EUID'' = None \<and>
   process_start table_gateway (Map.empty(''SALUS_GATEWAY_HOST'' \<mapsto> ''192.168.1.20''))
     = (Inl (ValueError
         ''SALUS_GATEWAY_HOST and SALUS_GATEWAY_EUID environment variables are required''), []) \<and>
   snd (process_start table_gateway
         (Map.empty(''SALUS_GATEWAY_HOST'' \<mapsto> ''192.168.1.20'',
                    ''SALUS_GATEWAY_EUID'' \<mapsto> ''001E5E0D32906128'')))
     = [Create ''192.168.1.20'' ''001E5E0D32906128'', Connect, PollStatus]"
  using refuses_to_start_unconfigured
    [of "Map.empty(''SALUS_GATEWAY_HOST'' \<mapsto> ''192.168.1.20'')" table_gateway]
  by (simp add: process_start_def module_init_def py_not_str_def lifespan_startup_def
      do_connect_def do_poll_status_def)

subsection \<open>Zone endpoints: the request-level cases\<close>

text \<open>
  Claim C9. For an empty list of ids, \<open>set_zone_temperature\<close> makes one gateway call,
  the poll, and returns status \<open>ok\<close>, the temperature of the request and an empty
  results list; \<open>set_zone_preset\<close> with an accepted preset does the same with the
  preset of the request.
\<close>

theorem zone_empty_batch:
  "set_zone_temperature gw
     \<lparr>ZoneTemperatureRequest.device_ids = [], ZoneTemperatureRequest.temperature = t\<rparr> s
   = (Dict [(''status'', Str ''ok''), (''temperature'', Float t), (''results'', List [])],
      \<lparr>gateway = poll_status gw (gateway s), calls = calls s @ [PollStatus]\<rparr>) \<and>
   (p \<in> {''Follow Schedule'', ''Permanent Hold'', ''Off''} \<longrightarrow>
    set_zone_preset gw
      \<lparr>ZonePresetRequest.device_ids = [], ZonePresetRequest.preset = p\<rparr> s
    = (Inr (Dict [(''status'', Str ''ok''), (''preset'', Str p), (''results'', List [])]),
       \<lparr>gateway = poll_status gw (gateway s), calls = calls s @ [PollStatus]\<rparr>))"
  by (simp add: set_zone_temperature_def set_zone_preset_def do_poll_status_def
      set_valid_presets)

theorem zone_empty_batch_witness:
  "''Off'' \<in> {''Follow Schedule'', ''Permanent Hold'', ''Off''} \<and>
   set_zone_temperature table_gateway
     \<lparr>ZoneTemperatureRequest.device_ids = [], ZoneTemperatureRequest.temperature = 21\<rparr>
     table_conn
   = (Dict [(''status'', Str ''ok''), (''temperature'', Float 21), (''results'', List [])],
      \<lparr>gateway = gateway table_conn, calls = [PollStatus]\<rparr>) \<and>
   set_zone_preset table_gateway
     \<lparr>ZonePresetRequest.device_ids = [], ZonePresetRequest.preset = ''Off''\<rparr> table_conn
   = (Inr (Dict [(''status'', Str ''ok''), (''preset'', Str ''Off''), (''results'', List [])]),
      \<lparr>gateway = gateway table_conn, calls = [PollStatus]\<rparr>)"
  using zone_empty_batch [of table_gateway 21 table_conn "''Off''"]
  by (simp add: table_gateway_def table_conn_def)

text \<open>
  Claim C2. For a preset outside the three accepted values and any list of ids,
  \<open>set_zone_preset\<close> raises the HTTP error 400 whose message lists the three accepted
  values; the only gateway call it makes is the poll, so there is no setter call and
  the client state is the polled one.
\<close>

theorem zone_preset_invalid_rejects_batch:
  assumes "p \<notin> {''Follow Schedule'', ''Permanent Hold'', ''Off''}"
  shows "set_zone_preset gw
           \<lparr>ZonePresetRequest.device_ids = ids, ZonePresetRequest.preset = p\<rparr> s
         = (Inl (HTTPException 400
              ''Invalid preset. Must be one of: ['Follow Schedule', 'Permanent Hold', 'Off']''),
            \<lparr>gateway = poll_status gw (gateway s), calls = calls s @ [PollStatus]\<rparr>) \<and>
         filter is_setter (calls_since s (snd (set_zone_preset gw
           \<lparr>ZonePresetRequest.device_ids = ids, ZonePresetRequest.preset = p\<rparr> s))) = []"
  using assms
  by (simp add: set_zone_preset_def do_poll_status_def set_valid_presets
      invalid_preset_literal calls_since_def)

theorem zone_preset_invalid_rejects_batch_witness:
  "''Eco'' \<notin> {''Follow Schedule'', ''Permanent Hold'', ''Off''} \<and>
   set_zone_preset table_gateway
     \<lparr>ZonePresetRequest.device_ids = [''A'', ''B'', ''C''], ZonePresetRequest.preset = ''Eco''\<rparr>
     table_conn
   = (Inl (HTTPException 400
        ''Invalid preset. Must be one of: ['Follow Schedule', 'Permanent Hold', 'Off']''),
      \<lparr>gateway = gateway table_conn, calls = [PollStatus]\<rparr>)"
  using zone_preset_invalid_rejects_batch
    [of "''Eco''" table_gateway "[''A'', ''B'', ''C'']" table_conn]
  by (simp add: table_gateway_def table_conn_def)

subsection \<open>Read endpoints: one device and the list\<close>

lemma find_view_of_item:
  "map_of items device_id = Some d \<Longrightarrow>
   find (\<lambda>r. DeviceResponse.id' r = device_id)
     (map (\<lambda>(did, d). device_to_response did d) items)
   = Some (device_to_response device_id d)"
  by (induction items) (auto simp: device_to_response_def)

text \<open>
  Claim C6. When, in the polled state, the lookup of an id and the mapping of all
  devices give the same device record for it, \<open>get_device\<close> returns the view that
  is the entry for that id in the \<open>devices\<close> list of \<open>get_devices\<close>.
\<close>

theorem get_device_agrees_with_get_devices:
  assumes "get_climate_device gw (poll_status gw (gateway s)) device_id = Some d"
      and "map_of (get_climate_devices gw (poll_status gw (gateway s))) device_id = Some d"
  shows "fst (get_device gw device_id s) = Inr (device_to_response device_id d) \<and>
         find (\<lambda>r. DeviceResponse.id' r = device_id) (devices (fst (get_devices gw s)))
           = Some (device_to_response device_id d)"
proof -
  have one: "fst (get_device gw device_id s) = Inr (device_to_response device_id d)"
    using assms(1)
    by (simp add: get_device_def do_poll_status_def do_get_climate_device_def)
  have "devices (fst (get_devices gw s))
          = map (\<lambda>(did, d). device_to_response did d)
              (get_climate_devices gw (poll_status gw (gateway s)))"
    by (simp add: get_devices_def do_poll_status_def do_get_climate_devices_def
        case_prod_unfold)
  with find_view_of_item [OF assms(2)] one show ?thesis by simp
qed

theorem get_device_agrees_with_get_devices_witness:
  "get_climate_device table_gateway (poll_status table_gateway (gateway table_conn)) ''C''
     = Some attic \<and>
   map_of (get_climate_devices table_gateway (poll_status table_gateway (gateway table_conn)))
     ''C'' = Some attic \<and>
   fst (get_device table_gateway ''C'' table_conn) = Inr (device_to_response ''C'' attic) \<and>
   find (\<lambda>r. DeviceResponse.id' r = ''C'') (devices (fst (get_devices table_gateway table_conn)))
     = Some (device_to_response ''C'' attic)"
proof -
  have a: "get_climate_device table_gateway (poll_status table_gateway (gateway table_conn))
             ''C'' = Some attic"
    by (simp add: table_gateway_def table_conn_def)
  have b: "map_of (get_climate_devices table_gateway
             (poll_status table_gateway (gateway table_conn))) ''C'' = Some attic"
    by (simp add: table_gateway_def table_conn_def)
  from get_device_agrees_with_get_devices [OF a b] a b show ?thesis by simp
qed

subsection \<open>Single-device mutating endpoints\<close>

text \<open>
  Claim C5. Each of the three handlers polls, then looks the device up, and raises 404
  when it is absent, whatever the value; \<open>set_mode\<close> and \<open>set_preset\<close> then check
  the value and raise 400 when it is not accepted; only then comes the one setter call,
  last in the log, and the confirmation with the id and the value applied. The two
  error branches make no setter call.
\<close>

theorem single_device_step_order:
  "set_temperature gw device_id \<lparr>TemperatureRequest.temperature = t\<rparr> s =
     (if get_climate_device gw (poll_status gw (gateway s)) device_id = None
      then (Inl (HTTPException 404 (''Device '' @ device_id @ '' not found'')),
            \<lparr>gateway = poll_status gw (gateway s),
             calls = calls s @ [PollStatus, GetClimateDevice device_id]\<rparr>)
      else (Inr (Dict [(''status'', Str ''ok''), (''device_id'', Str device_id),
                       (''temperature'', Float t)]),
            \<lparr>gateway = set_climate_device_temperature gw device_id t
                         (poll_status gw (gateway s)),
             calls = calls s @ [PollStatus, GetClimateDevice device_id,
                                SetClimateDeviceTemperature device_id t]\<rparr>)) \<and>
   set_mode gw device_id \<lparr>mode = m\<rparr> s =
     (if get_climate_device gw (poll_status gw (gateway s)) device_id = None
      then (Inl (HTTPException 404 (''Device '' @ device_id @ '' not found'')),
            \<lparr>gateway = poll_status gw (gateway s),
             calls = calls s @ [PollStatus, GetClimateDevice device_id]\<rparr>)
      else if m \<notin> {''off'', ''heat'', ''auto''}
      then (Inl (HTTPException 400 ''Invalid mode. Must be one of: ['off', 'heat', 'auto']''),
            \<lparr>gateway = poll_status gw (gateway s),
             calls = calls s @ [PollStatus, GetClimateDevice device_id]\<rparr>)
      else (Inr (Dict [(''status'', Str ''ok''), (''device_id'', Str device_id),
                       (''mode'', Str m)]),
            \<lparr>gateway = set_climate_device_mode gw device_id m (poll_status gw (gateway s)),
             calls = calls s @ [PollStatus, GetClimateDevice device_id,
                                SetClimateDeviceMode device_id m]\<rparr>)) \<and>
   set_preset gw device_id \<lparr>PresetRequest.preset = p\<rparr> s =
     (if get_climate_device gw (poll_status gw (gateway s)) device_id = None
      then (Inl (HTTPException 404 (''Device '' @ device_id @ '' not found'')),
            \<lparr>gateway = poll_status gw (gateway s),
             calls = calls s @ [PollStatus, GetClimateDevice device_id]\<rparr>)
      else if p \<notin> {''Follow Schedule'', ''Permanent Hold'', ''Off''}
      then (Inl (HTTPException 400
              ''Invalid preset. Must be one of: ['Follow Schedule', 'Permanent Hold', 'Off']''),
            \<lparr>gateway = poll_status gw (gateway s),
             calls = calls s @ [PollStatus, GetClimateDevice device_id]\<rparr>)
      else (Inr (Dict [(''status'', Str ''ok''), (''device_id'', Str device_id),
                       (''preset'', Str p)]),
            \<lparr>gateway = set_climate_device_preset gw device_id p (poll_status gw (gateway s)),
             calls = calls s @ [PollStatus, GetClimateDevice device_id,
                                SetClimateDevicePreset device_id p]\<rparr>))"
proof -
  have temp: "set_temperature gw device_id \<lparr>TemperatureRequest.temperature = t\<rparr> s =
     (if get_climate_device gw (poll_status gw (gateway s)) device_id = None
      then (Inl (HTTPException 404 (''Device '' @ device_id @ '' not found'')),
            \<lparr>gateway = poll_status gw (gateway s),
             calls = calls s @ [PollStatus, GetClimateDevice device_id]\<rparr>)
      else (Inr (Dict [(''status'', Str ''ok''), (''device_id'', Str device_id),
                       (''temperature'', Float t)]),
            \<lparr>gateway = set_climate_device_temperature gw device_id t
                         (poll_status gw (gateway s)),
             calls = calls s @ [PollStatus, GetClimateDevice device_id,
                                SetClimateDeviceTemperature device_id t]\<rparr>))"
    by (cases "get_climate_device gw (poll_status gw (gateway s)) device_id")
       (simp_all add: set_temperature_def do_poll_status_def do_get_climate_device_def
          do_set_climate_device_temperature_def not_found_def)
  have md: "set_mode gw device_id \<lparr>mode = m\<rparr> s =
     (if get_climate_device gw (poll_status gw (gateway s)) device_id = None
      then (Inl (HTTPException 404 (''Device '' @ device_id @ '' not found'')),
            \<lparr>gateway = poll_status gw (gateway s),
             calls = calls s @ [PollStatus, GetClimateDevice device_id]\<rparr>)
      else if m \<notin> {''off'', ''heat'', ''auto''}
      then (Inl (HTTPException 400 ''Invalid mode. Must be one of: ['off', 'heat', 'auto']''),
            \<lparr>gateway = poll_status gw (gateway s),
             calls = calls s @ [PollStatus, GetClimateDevice device_id]\<rparr>)
      else (Inr (Dict [(''status'', Str ''ok''), (''device_id'', Str device_id),
                       (''mode'', Str m)]),
            \<lparr>gateway = set_climate_device_mode gw device_id m (poll_status gw (gateway s)),
             calls = calls s @ [PollStatus, GetClimateDevice device_id,
                                SetClimateDeviceMode device_id m]\<rparr>))"
    by (cases "get_climate_device gw (poll_status gw (gateway s)) device_id")
       (simp_all add: set_mode_def do_poll_status_def do_get_climate_device_def
          do_set_climate_device_mode_def not_found_def set_valid_modes invalid_mode_literal)
  have pr: "set_preset gw device_id \<lparr>PresetRequest.preset = p\<rparr> s =
     (if get_climate_device gw (poll_status gw (gateway s)) device_id = None
      then (Inl (HTTPException 404 (''Device '' @ device_id @ '' not found'')),
            \<lparr>gateway = poll_status gw (gateway s),
             calls = calls s @ [PollStatus, GetClimateDevice device_id]\<rparr>)
      else if p \<notin> {''Follow Schedule'', ''Permanent Hold'', ''Off''}
      then (Inl (HTTPException 400
              ''Invalid preset. Must be one of: ['Follow Schedule', 'Permanent Hold', 'Off']''),
            \<lparr>gateway = poll_status gw (gateway s),
             calls = calls s @ [PollStatus, GetClimateDevice device_id]\<rparr>)
      else (Inr (Dict [(''status'', Str ''ok''), (''device_id'', Str device_id),
                       (''preset'', Str p)]),
            \<lparr>gateway = set_climate_device_preset gw device_id p (poll_status gw (gateway s)),
             calls = calls s @ [PollStatus, GetClimateDevice device_id,
                                SetClimateDevicePreset device_id p]\<rparr>))"
    by (cases "get_climate_device gw (poll_status gw (gateway s)) device_id")
       (simp_all add: set_preset_def do_poll_status_def do_get_climate_device_def
          do_set_climate_device_preset_def not_found_def set_valid_presets
          invalid_preset_literal)
  from temp md pr show ?thesis by (intro conjI)
qed

theorem single_device_step_order_witness:
  "set_mode table_gateway ''A'' \<lparr>mode = ''auto''\<rparr> table_conn =
     (Inr (Dict [(''status'', Str ''ok''), (''device_id'', Str ''A''), (''mode'', Str ''auto'')]),
      \<lparr>gateway = [(''A'', living_room\<lparr>device.hvac_mode := Some ''auto''\<rparr>), (''C'', attic)],
       calls = [PollStatus, GetClimateDevice ''A'', SetClimateDeviceMode ''A'' ''auto'']\<rparr>) \<and>
   set_preset table_gateway ''B'' \<lparr>PresetRequest.preset = ''Eco''\<rparr> table_conn =
     (Inl (HTTPException 404 ''Device B not found''),
      \<lparr>gateway = gateway table_conn, calls = [PollStatus, GetClimateDevice ''B'']\<rparr>)"
  using single_device_step_order [of table_gateway "''A''" 21 table_conn "''auto''" "''Off''"]
    single_device_step_order [of table_gateway "''B''" 21 table_conn "''auto''" "''Eco''"]
  by (simp add: table_gateway_def table_conn_def table_update_def)

text \<open>
  Claim C4, as the code has it. For a mode outside \<open>off\<close>, \<open>heat\<close>, \<open>auto\<close>
  (compared as strings, so \<open>Heat\<close> is outside) \<open>set_mode\<close> raises 400 with the
  message listing the three values when the client resolves the id, and 404 when it
  does not; in both cases the two gateway calls are the poll and the lookup, and no
  setter is called.
\<close>

theorem set_mode_rejects_unknown_mode:
  assumes "m \<notin> {''off'', ''heat'', ''auto''}"
  shows "set_mode gw device_id \<lparr>mode = m\<rparr> s =
           (if get_climate_device gw (poll_status gw (gateway s)) device_id = None
            then Inl (HTTPException 404 (''Device '' @ device_id @ '' not found''))
            else Inl (HTTPException 400
                   ''Invalid mode. Must be one of: ['off', 'heat', 'auto']''),
            \<lparr>gateway = poll_status gw (gateway s),
             calls = calls s @ [PollStatus, GetClimateDevice device_id]\<rparr>) \<and>
         filter is_setter (calls_since s (snd (set_mode gw device_id \<lparr>mode = m\<rparr> s))) = []"
  using assms
  by (cases "get_climate_device gw (poll_status gw (gateway s)) device_id")
     (simp_all add: set_mode_def do_poll_status_def do_get_climate_device_def
        not_found_def set_valid_modes invalid_mode_literal calls_since_def)

theorem set_mode_rejects_unknown_mode_witness:
  "''Heat'' \<notin> {''off'', ''heat'', ''auto''} \<and>
   set_mode table_gateway ''A'' \<lparr>mode = ''Heat''\<rparr> table_conn =
     (Inl (HTTPException 400 ''Invalid mode. Must be one of: ['off', 'heat', 'auto']''),
      \<lparr>gateway = gateway table_conn, calls = [PollStatus, GetClimateDevice ''A'']\<rparr>)"
  using set_mode_rejects_unknown_mode [of "''Heat''" table_gateway "''A''" table_conn]
  by (simp add: table_gateway_def table_conn_def)

text \<open>
  The claim as stated, 400 for every mode outside the three, fails for an id the
  client does not resolve: the lookup comes first and the answer is 404.
\<close>

theorem set_mode_unknown_device_counterexample:
  "''bogus'' \<notin> {''off'', ''heat'', ''auto''} \<and>
   fst (set_mode table_gateway ''B'' \<lparr>mode = ''bogus''\<rparr> table_conn)
     = Inl (HTTPException 404 ''Device B not found'')"
  by (simp add: set_mode_def do_poll_status_def do_get_climate_device_def not_found_def
      table_gateway_def table_conn_def)

subsection \<open>Zone endpoints: the loops\<close>



text \<open>The calls a zone loop adds are lookups and setter calls for ids of the batch.\<close>

lemma zone_preset_loop_calls:
  "\<exists>new. calls (snd (zone_preset_loop gw p ids res s)) = calls s @ new \<and>
         set new \<subseteq> GetClimateDevice ` set ids \<union> (\<lambda>i. SetClimateDevicePreset i p) ` set ids"
proof (induction ids arbitrary: res s)
  case Nil
  then show ?case by simp
next
  case (Cons i ids)
  show ?case
  proof (cases "get_climate_device gw (gateway s) i")
    case None
    from Cons [of "res @ [Dict [(''device_id'', Str i), (''status'', Str ''not_found'')]]"
        "\<lparr>gateway = gateway s, calls = calls s @ [GetClimateDevice i]\<rparr>"]
    obtain new where
      "calls (snd (zone_preset_loop gw p ids (res @ [Dict [(''device_id'', Str i), (''status'', Str ''not_found'')]])
          \<lparr>gateway = gateway s, calls = calls s @ [GetClimateDevice i]\<rparr>))
        = (calls s @ [GetClimateDevice i]) @ new"
      "set new \<subseteq> GetClimateDevice ` set ids \<union> (\<lambda>i. SetClimateDevicePreset i p) ` set ids"
      by auto
    with None show ?thesis
      by (intro exI [of _ "GetClimateDevice i # new"])
         (auto simp: do_get_climate_device_def)
  next
    case (Some d)
    from Cons [of "res @ [Dict [(''device_id'', Str i), (''status'', Str ''ok'')]]"
        "\<lparr>gateway = set_climate_device_preset gw i p (gateway s),
          calls = calls s @ [GetClimateDevice i, SetClimateDevicePreset i p]\<rparr>"]
    obtain new where
      "calls (snd (zone_preset_loop gw p ids (res @ [Dict [(''device_id'', Str i), (''status'', Str ''ok'')]])
          \<lparr>gateway = set_climate_device_preset gw i p (gateway s),
            calls = calls s @ [GetClimateDevice i, SetClimateDevicePreset i p]\<rparr>))
        = (calls s @ [GetClimateDevice i, SetClimateDevicePreset i p]) @ new"
      "set new \<subseteq> GetClimateDevice ` set ids \<union> (\<lambda>i. SetClimateDevicePreset i p) ` set ids"
      by auto
    with Some show ?thesis
      by (intro exI [of _ "GetClimateDevice i # SetClimateDevicePreset i p # new"])
         (auto simp: do_get_climate_device_def do_set_climate_device_preset_def)
  qed
qed





text \<open>
  Claim C3, as the code has it. \<open>set_zone_preset\<close> polls first, once: the calls it
  adds to the log are the poll followed by calls that are lookups and preset setter
  calls for ids of the batch, none of them a poll. The preset is checked after the
  poll and before any device is looked up: for a preset that is not accepted the poll
  is the only call and the result is the error 400.
\<close>

theorem zone_preset_polls_once_first:
  "\<exists>rest.
     calls (snd (set_zone_preset gw
       \<lparr>ZonePresetRequest.device_ids = ids, ZonePresetRequest.preset = p\<rparr> s))
       = calls s @ PollStatus # rest \<and>
     PollStatus \<notin> set rest \<and>
     set rest \<subseteq> GetClimateDevice ` set ids \<union> (\<lambda>i. SetClimateDevicePreset i p) ` set ids \<and>
     (p \<notin> {''Follow Schedule'', ''Permanent Hold'', ''Off''} \<longrightarrow>
        rest = [] \<and>
        fst (set_zone_preset gw
          \<lparr>ZonePresetRequest.device_ids = ids, ZonePresetRequest.preset = p\<rparr> s)
          = Inl (HTTPException 400
              ''Invalid preset. Must be one of: ['Follow Schedule', 'Permanent Hold', 'Off']''))"
proof (cases "p \<in> {''Follow Schedule'', ''Permanent Hold'', ''Off''}")
  case False
  then show ?thesis
    by (intro exI [of _ "[]"])
       (simp add: set_zone_preset_def do_poll_status_def set_valid_presets
          invalid_preset_literal)
next
  case True
  obtain new where new:
    "calls (snd (zone_preset_loop gw p ids [] (do_poll_status gw s)))
       = calls (do_poll_status gw s) @ new"
    "set new \<subseteq> GetClimateDevice ` set ids \<union> (\<lambda>i. SetClimateDevicePreset i p) ` set ids"
    using zone_preset_loop_calls [of gw p ids "[]" "do_poll_status gw s"] by auto
  from new(2) have "PollStatus \<notin> set new" by auto
  with True new show ?thesis
    by (intro exI [of _ new])
       (simp add: set_zone_preset_def set_valid_presets case_prod_unfold Let_def
          do_poll_status_def)
qed

theorem zone_preset_polls_once_first_witness:
  "calls (snd (set_zone_preset table_gateway
       \<lparr>ZonePresetRequest.device_ids = [''A'', ''B''], ZonePresetRequest.preset = ''Off''\<rparr>
       table_conn))
     = [PollStatus, GetClimateDevice ''A'', SetClimateDevicePreset ''A'' ''Off'',
        GetClimateDevice ''B''] \<and>
   ''Eco'' \<notin> {''Follow Schedule'', ''Permanent Hold'', ''Off''} \<and>
   set_zone_preset table_gateway
       \<lparr>ZonePresetRequest.device_ids = [''A'', ''B''], ZonePresetRequest.preset = ''Eco''\<rparr>
       table_conn
     = (Inl (HTTPException 400
          ''Invalid preset. Must be one of: ['Follow Schedule', 'Permanent Hold', 'Off']''),
        \<lparr>gateway = gateway table_conn, calls = [PollStatus]\<rparr>)"
  using zone_preset_polls_once_first [of table_gateway "[''A'', ''B'']" "''Eco''" table_conn]
  by (simp add: set_zone_preset_def do_poll_status_def do_get_climate_device_def
      do_set_climate_device_preset_def set_valid_presets invalid_preset_literal
      table_gateway_def table_conn_def table_update_def)

text \<open>
  The claim as stated puts the check of the preset before the poll. The handler polls
  on its first line: a request with a preset that is not accepted, started on an empty
  log, ends with the error 400 and the poll in the log.
\<close>

theorem zone_preset_validates_after_poll_counterexample:
  "''Eco'' \<notin> {''Follow Schedule'', ''Permanent Hold'', ''Off''} \<and>
   fst (set_zone_preset table_gateway
     \<lparr>ZonePresetRequest.device_ids = [''A''], ZonePresetRequest.preset = ''Eco''\<rparr> table_conn)
     = Inl (HTTPException 400
         ''Invalid preset. Must be one of: ['Follow Schedule', 'Permanent Hold', 'Off']'') \<and>
   calls table_conn = [] \<and>
   calls (snd (set_zone_preset table_gateway
     \<lparr>ZonePresetRequest.device_ids = [''A''], ZonePresetRequest.preset = ''Eco''\<rparr> table_conn))
     = [PollStatus]"
  by (simp add: set_zone_preset_def do_poll_status_def set_valid_presets
      invalid_preset_literal table_gateway_def table_conn_def)



end
